theory Spec2Isabelle
  imports Main
begin

section \<open>Data model\<close>

text \<open>
  The controller of \<^verbatim>\<open>main.go\<close> talks to the kernel, to child processes and to the file
  system. Every such call is an oracle of the world the function runs in; the functions
  return, next to their Go result, the list of the external calls and log lines they made,
  in program order.
\<close>

text \<open>Go \<^verbatim>\<open>error\<close> values: those handed in by the environment and those built by the code.\<close>

datatype error =
    OsError string
  | ParseAddrError string
  | NoRoutesTo string
  | LookingUpLinkIndex int error
  | RouterNotFound
  | RoutersNotFound
  | Unimplemented

text \<open>\<^verbatim>\<open>net.Interface\<close>, the two fields the program reads.\<close>

record Interface =
  Index :: int
  Name :: string

text \<open>\<^verbatim>\<open>netlink.Route\<close>, the three fields the program reads or writes; \<open>'a\<close> is \<^verbatim>\<open>netip.Addr\<close>.\<close>

record 'a Route =
  Dst :: string
  LinkIndex :: int
  Gw :: "'a option"

datatype 'a logarg = ArgStr string | ArgAddr 'a | ArgErr error

datatype 'a event =
    Log string "'a logarg list"
  | NetlinkRouteGet string
  | NetInterfaceByIndex int
  | ExecPing string string
  | NetlinkRouteDel "'a Route"
  | NetlinkRouteAdd "'a Route"
  | OsOpenLease int
  | ExecDhcpcd string

text \<open>
  The flags (global variables of the program) and the answers of the environment.
  \<open>leaseLines i\<close> is \<^verbatim>\<open>os.Open\<close> of \<^verbatim>\<open>/run/systemd/netif/leases/<i>\<close> followed by the lines
  \<^verbatim>\<open>bufio.Scanner\<close> yields from it; \<open>dhcpcdLines n\<close> is the output of \<^verbatim>\<open>dhcpcd -U <n>\<close>, scanned the
  same way; \<open>ping n ip\<close> is the result of running \<^verbatim>\<open>ping -I <n> -c1 <ip>\<close>.
  The scanner stops at a read error and at a line longer than its buffer; the program never
  reads \<^verbatim>\<open>scanner.Err()\<close>, so the lines yielded until then are all it sees of the file.
\<close>

record 'a world =
  flagCheckIP :: string
  flagDryRun :: bool
  flagSystemdNetworkd :: bool
  flagDhcpcd :: bool
  ParseAddr :: "string \<Rightarrow> error + 'a"
  RouteGet :: "string \<Rightarrow> error + 'a Route list"
  InterfaceByIndex :: "int \<Rightarrow> error + Interface"
  ping :: "string \<Rightarrow> string \<Rightarrow> error option"
  RouteDel :: "'a Route \<Rightarrow> error option"
  RouteAdd :: "'a Route \<Rightarrow> error option"
  leaseLines :: "int \<Rightarrow> error + string list"
  dhcpcdLines :: "string \<Rightarrow> error + string list"

definition isMutation :: "'a event \<Rightarrow> bool" where
  "isMutation e = (case e of NetlinkRouteDel _ \<Rightarrow> True | NetlinkRouteAdd _ \<Rightarrow> True | _ \<Rightarrow> False)"

definition mutations :: "'a event list \<Rightarrow> 'a event list" where
  "mutations t = filter isMutation t"

definition isAutodetect :: "'a event \<Rightarrow> bool" where
  "isAutodetect e = (case e of OsOpenLease _ \<Rightarrow> True | ExecDhcpcd _ \<Rightarrow> True | _ \<Rightarrow> False)"

section \<open>Route Switcher and Route Inspector\<close>

definition defaultDst :: string where
  "defaultDst = ''0.0.0.0/0''"

definition defaultRoute :: "Interface \<Rightarrow> 'a \<Rightarrow> 'a Route" where
  "defaultRoute dev gw = \<lparr>Dst = defaultDst, LinkIndex = Index dev, Gw = Some gw\<rparr>"

definition switchDefaultRoute ::
  "'a world \<Rightarrow> Interface \<Rightarrow> 'a \<Rightarrow> Interface \<Rightarrow> 'a \<Rightarrow> 'a event list \<times> error option" where
  "switchDefaultRoute w oldDev oldGw newDev newGw =
     ([NetlinkRouteDel (defaultRoute oldDev oldGw)]
      @ (case RouteDel w (defaultRoute oldDev oldGw) of
           None \<Rightarrow> []
         | Some err \<Rightarrow> [Log ''error removing old default route: %v'' [ArgErr err]])
      @ [NetlinkRouteAdd (defaultRoute newDev newGw)],
      RouteAdd w (defaultRoute newDev newGw))"

definition dst :: string where
  "dst = ''8.8.8.8''"

definition getDefaultRouteInterface :: "'a world \<Rightarrow> 'a event list \<times> (error + string)" where
  "getDefaultRouteInterface w =
     (case RouteGet w dst of
        Inl err \<Rightarrow> ([NetlinkRouteGet dst], Inl err)
      | Inr routes \<Rightarrow>
          (case routes of
             [] \<Rightarrow> ([NetlinkRouteGet dst], Inl (NoRoutesTo dst))
           | r # _ \<Rightarrow>
               (case InterfaceByIndex w (LinkIndex r) of
                  Inl err \<Rightarrow>
                    ([NetlinkRouteGet dst, NetInterfaceByIndex (LinkIndex r)],
                     Inl (LookingUpLinkIndex (LinkIndex r) err))
                | Inr iface \<Rightarrow>
                    ([NetlinkRouteGet dst, NetInterfaceByIndex (LinkIndex r)],
                     Inr (Name iface)))))"

section \<open>Failover Loop: one check cycle\<close>

definition doCheckOnce ::
  "'a world \<Rightarrow> Interface \<Rightarrow> 'a \<Rightarrow> Interface \<Rightarrow> 'a \<Rightarrow> 'a event list \<times> error option" where
  "doCheckOnce w primary primaryGw backup backupGw =
     (case getDefaultRouteInterface w of
        (t, Inl err) \<Rightarrow> (t, Some err)
      | (t, Inr currentGateway) \<Rightarrow>
          (case ping w (Name primary) (flagCheckIP w) of
             None \<Rightarrow>
               if currentGateway = Name backup then
                 if \<not> flagDryRun w then
                   (t @ [ExecPing (Name primary) (flagCheckIP w),
                         Log ''primary interface up; switching from backup -> primary'' []]
                      @ fst (switchDefaultRoute w backup backupGw primary primaryGw),
                    snd (switchDefaultRoute w backup backupGw primary primaryGw))
                 else
                   (t @ [ExecPing (Name primary) (flagCheckIP w),
                         Log ''primary interface up; switching from backup -> primary'' []],
                    None)
               else
                 (t @ [ExecPing (Name primary) (flagCheckIP w),
                       Log ''on primary interface; doing nothing'' []],
                  None)
           | Some _ \<Rightarrow>
               if currentGateway = Name primary then
                 if \<not> flagDryRun w then
                   (t @ [ExecPing (Name primary) (flagCheckIP w),
                         Log ''primary interface down; switching from primary -> backup'' []]
                      @ fst (switchDefaultRoute w primary primaryGw backup backupGw),
                    snd (switchDefaultRoute w primary primaryGw backup backupGw))
                 else
                   (t @ [ExecPing (Name primary) (flagCheckIP w),
                         Log ''primary interface down; switching from primary -> backup'' []],
                    None)
               else
                 (t @ [ExecPing (Name primary) (flagCheckIP w),
                       Log ''on backup interface; doing nothing'' []],
                  None)))"

section \<open>Gateway Resolver\<close>

text \<open>\<^verbatim>\<open>strings.HasPrefix\<close>, and \<^verbatim>\<open>strings.Cut\<close> for a separator of one byte.\<close>

definition HasPrefix :: "string \<Rightarrow> string \<Rightarrow> bool" where
  "HasPrefix s p = (take (length p) s = p)"

definition Cut :: "string \<Rightarrow> char \<Rightarrow> string \<times> string \<times> bool" where
  "Cut s sep =
     (if sep \<in> set s
      then (takeWhile (\<lambda>c. c \<noteq> sep) s, tl (dropWhile (\<lambda>c. c \<noteq> sep) s), True)
      else (s, [], False))"

text \<open>The scanning loop of \<^verbatim>\<open>getGatewaySystemdNetworkd\<close> over the remaining lines.\<close>

fun scanLease :: "'a world \<Rightarrow> string list \<Rightarrow> error + 'a" where
  "scanLease w [] = Inl RouterNotFound"
| "scanLease w (line # rest) =
     (if HasPrefix line ''#'' then scanLease w rest
      else case Cut line (CHR ''='') of
        (key, val, ok) \<Rightarrow>
          if \<not> ok then scanLease w rest
          else if key = ''ROUTER'' then ParseAddr w val
          else scanLease w rest)"

definition getGatewaySystemdNetworkd ::
  "'a world \<Rightarrow> Interface \<Rightarrow> 'a event list \<times> (error + 'a)" where
  "getGatewaySystemdNetworkd w iface =
     (case leaseLines w (Index iface) of
        Inl err \<Rightarrow> ([OsOpenLease (Index iface)], Inl err)
      | Inr lines \<Rightarrow> ([OsOpenLease (Index iface)], scanLease w lines))"

text \<open>The scanning loop of \<^verbatim>\<open>getGatewayDhcpcd\<close>.\<close>

fun scanDhcpcd :: "'a world \<Rightarrow> string list \<Rightarrow> error + 'a" where
  "scanDhcpcd w [] = Inl RoutersNotFound"
| "scanDhcpcd w (line # rest) =
     (case Cut line (CHR ''='') of
        (key, val, ok) \<Rightarrow>
          if \<not> ok then scanDhcpcd w rest
          else if key = ''routers'' then ParseAddr w val
          else scanDhcpcd w rest)"

definition getGatewayDhcpcd ::
  "'a world \<Rightarrow> Interface \<Rightarrow> 'a event list \<times> (error + 'a)" where
  "getGatewayDhcpcd w iface =
     (case dhcpcdLines w (Name iface) of
        Inl err \<Rightarrow> ([ExecDhcpcd (Name iface)], Inl err)
      | Inr lines \<Rightarrow> ([ExecDhcpcd (Name iface)], scanDhcpcd w lines))"

definition getGateway :: "'a world \<Rightarrow> Interface \<Rightarrow> 'a event list \<times> (error + 'a)" where
  "getGateway w iface =
     (if flagSystemdNetworkd w then getGatewaySystemdNetworkd w iface
      else if flagDhcpcd w then getGatewayDhcpcd w iface
      else ([], Inl Unimplemented))"

text \<open>Lines 195 to 201 of \<^verbatim>\<open>parseOrGetGateway\<close>: the path taken when no address was returned.\<close>

definition autodetectGateway ::
  "'a world \<Rightarrow> Interface \<Rightarrow> 'a event list \<times> (error + 'a)" where
  "autodetectGateway w iface =
     (case getGateway w iface of
        (t, Inl err) \<Rightarrow> (t, Inl err)
      | (t, Inr gw) \<Rightarrow>
          (t @ [Log ''autodetected gateway for %s: %v'' [ArgStr (Name iface), ArgAddr gw]],
           Inr gw))"

definition parseOrGetGateway ::
  "'a world \<Rightarrow> string \<Rightarrow> Interface \<Rightarrow> 'a event list \<times> (error + 'a)" where
  "parseOrGetGateway w val iface =
     (if val \<noteq> [] then
        (case ParseAddr w val of
           Inr gw \<Rightarrow> ([], Inr gw)
         | Inl _ \<Rightarrow> autodetectGateway w iface)
      else autodetectGateway w iface)"

section \<open>The resolver as written in the second source file\<close>

text \<open>
  The second file of the repository declares the four resolver functions again. They are
  embedded on their own, from that file's text, under the suffix \<open>_p0\<close>.
\<close>

fun scanLease_p0 :: "'a world \<Rightarrow> string list \<Rightarrow> error + 'a" where
  "scanLease_p0 w [] = Inl RouterNotFound"
| "scanLease_p0 w (line # rest) =
     (if HasPrefix line ''#'' then scanLease_p0 w rest
      else case Cut line (CHR ''='') of
        (key, val, ok) \<Rightarrow>
          if \<not> ok then scanLease_p0 w rest
          else if key = ''ROUTER'' then ParseAddr w val
          else scanLease_p0 w rest)"

definition getGatewaySystemdNetworkd_p0 ::
  "'a world \<Rightarrow> Interface \<Rightarrow> 'a event list \<times> (error + 'a)" where
  "getGatewaySystemdNetworkd_p0 w iface =
     (case leaseLines w (Index iface) of
        Inl err \<Rightarrow> ([OsOpenLease (Index iface)], Inl err)
      | Inr lines \<Rightarrow> ([OsOpenLease (Index iface)], scanLease_p0 w lines))"

fun scanDhcpcd_p0 :: "'a world \<Rightarrow> string list \<Rightarrow> error + 'a" where
  "scanDhcpcd_p0 w [] = Inl RoutersNotFound"
| "scanDhcpcd_p0 w (line # rest) =
     (case Cut line (CHR ''='') of
        (key, val, ok) \<Rightarrow>
          if \<not> ok then scanDhcpcd_p0 w rest
          else if key = ''routers'' then ParseAddr w val
          else scanDhcpcd_p0 w rest)"

definition getGatewayDhcpcd_p0 ::
  "'a world \<Rightarrow> Interface \<Rightarrow> 'a event list \<times> (error + 'a)" where
  "getGatewayDhcpcd_p0 w iface =
     (case dhcpcdLines w (Name iface) of
        Inl err \<Rightarrow> ([ExecDhcpcd (Name iface)], Inl err)
      | Inr lines \<Rightarrow> ([ExecDhcpcd (Name iface)], scanDhcpcd_p0 w lines))"

definition getGateway_p0 :: "'a world \<Rightarrow> Interface \<Rightarrow> 'a event list \<times> (error + 'a)" where
  "getGateway_p0 w iface =
     (if flagSystemdNetworkd w then getGatewaySystemdNetworkd_p0 w iface
      else if flagDhcpcd w then getGatewayDhcpcd_p0 w iface
      else ([], Inl Unimplemented))"

definition autodetectGateway_p0 ::
  "'a world \<Rightarrow> Interface \<Rightarrow> 'a event list \<times> (error + 'a)" where
  "autodetectGateway_p0 w iface =
     (case getGateway_p0 w iface of
        (t, Inl err) \<Rightarrow> (t, Inl err)
      | (t, Inr gw) \<Rightarrow>
          (t @ [Log ''autodetected gateway for %s: %v'' [ArgStr (Name iface), ArgAddr gw]],
           Inr gw))"

definition parseOrGetGateway_p0 ::
  "'a world \<Rightarrow> string \<Rightarrow> Interface \<Rightarrow> 'a event list \<times> (error + 'a)" where
  "parseOrGetGateway_p0 w val iface =
     (if val \<noteq> [] then
        (case ParseAddr w val of
           Inr gw \<Rightarrow> ([], Inr gw)
         | Inl _ \<Rightarrow> autodetectGateway_p0 w iface)
      else autodetectGateway_p0 w iface)"

section \<open>The lease-file backend in the words of the specification\<close>

text \<open>
  The value the specification names: lines are taken in order, comment lines and lines
  without a separator are passed over, and the first line whose key is \<^verbatim>\<open>ROUTER\<close> gives the
  value.
\<close>

definition isRouterLine :: "string \<Rightarrow> bool" where
  "isRouterLine line =
     (\<not> HasPrefix line ''#'' \<and> CHR ''='' \<in> set line \<and> fst (Cut line (CHR ''='')) = ''ROUTER'')"

definition routerValue :: "string list \<Rightarrow> string option" where
  "routerValue lines =
     (case filter isRouterLine lines of
        [] \<Rightarrow> None
      | line # _ \<Rightarrow> Some (fst (snd (Cut line (CHR ''='')))))"

section \<open>A concrete world\<close>

text \<open>
  The dotted-decimal fragment of \<^verbatim>\<open>netip.ParseAddr\<close>: four fields separated by dots, each one
  to three decimal digits, without a leading zero, at most 255. It serves the concrete
  worlds below; the general theorems hold for every parser.
\<close>

datatype Addr = IPv4 nat nat nat nat

definition digitOf :: "char \<Rightarrow> nat option" where
  "digitOf c =
     (let b = (of_char c :: nat)
      in if of_char (CHR ''0'') \<le> b \<and> b \<le> of_char (CHR ''9'')
         then Some (b - of_char (CHR ''0'')) else None)"

fun fieldValue :: "nat \<Rightarrow> string \<Rightarrow> nat option" where
  "fieldValue acc [] = Some acc"
| "fieldValue acc (c # cs) =
     (case digitOf c of None \<Rightarrow> None | Some d \<Rightarrow> fieldValue (acc * 10 + d) cs)"

definition parseField :: "string \<Rightarrow> nat option" where
  "parseField f =
     (if f = [] \<or> 3 < length f \<or> (1 < length f \<and> hd f = CHR ''0'') then None
      else case fieldValue 0 f of
             None \<Rightarrow> None
           | Some v \<Rightarrow> if 255 < v then None else Some v)"

fun splitDots :: "string \<Rightarrow> string \<Rightarrow> string list" where
  "splitDots cur [] = [rev cur]"
| "splitDots cur (c # cs) =
     (if c = CHR ''.'' then rev cur # splitDots [] cs else splitDots (c # cur) cs)"

definition parseDotted :: "string \<Rightarrow> error + Addr" where
  "parseDotted s =
     (case map parseField (splitDots [] s) of
        [Some a, Some b, Some c, Some d] \<Rightarrow> Inr (IPv4 a b c d)
      | _ \<Rightarrow> Inl (ParseAddrError s))"

definition eth0 :: Interface where
  "eth0 = \<lparr>Index = 2, Name = ''eth0''\<rparr>"

definition wwan0 :: Interface where
  "wwan0 = \<lparr>Index = 3, Name = ''wwan0''\<rparr>"

text \<open>
  A host whose default route is on \<^verbatim>\<open>eth0\<close>, where the probe fails, and where the process
  may not change the routing table: both netlink writes are refused. The lease file of
  \<^verbatim>\<open>eth0\<close> lists two routers on its \<^verbatim>\<open>ROUTER\<close> line; the one of \<^verbatim>\<open>wwan0\<close> lists one.
\<close>

definition host :: "Addr world" where
  "host =
     \<lparr>flagCheckIP = ''8.8.8.8'', flagDryRun = False,
      flagSystemdNetworkd = True, flagDhcpcd = False,
      ParseAddr = parseDotted,
      RouteGet = (\<lambda>d. Inr [\<lparr>Dst = ''8.8.8.8/32'', LinkIndex = 2, Gw = Some (IPv4 10 0 0 1)\<rparr>]),
      InterfaceByIndex =
        (\<lambda>i. if i = 2 then Inr eth0 else if i = 3 then Inr wwan0
              else Inl (OsError ''no such network interface'')),
      ping = (\<lambda>n ip. Some (OsError ''exit status 1'')),
      RouteDel = (\<lambda>r. Some (OsError ''operation not permitted'')),
      RouteAdd = (\<lambda>r. Some (OsError ''operation not permitted'')),
      leaseLines =
        (\<lambda>i. if i = 2 then Inr [''# This is private data. Do not parse.'', ''ADDRESS=10.0.0.7'',
                                 ''ROUTER=10.0.0.1 10.0.0.2'', ''ROUTER=10.0.0.1'']
              else if i = 3 then Inr [''# This is private data. Do not parse.'', ''NETMASK'',
                                      ''ROUTER=192.168.8.1'', ''ROUTER=192.168.8.2'']
              else Inl (OsError ''no such file or directory'')),
      dhcpcdLines = (\<lambda>n. Inl (OsError ''executable file not found in $PATH''))\<rparr>"

section \<open>Auxiliary facts\<close>

lemma scanLease_routerValue:
  "scanLease w lines =
     (case routerValue lines of None \<Rightarrow> Inl RouterNotFound | Some v \<Rightarrow> ParseAddr w v)"
proof (induction lines)
  case Nil
  show ?case by (simp add: routerValue_def)
next
  case (Cons line rest)
  show ?case
  proof (cases "isRouterLine line")
    case True
    then have a: "\<not> HasPrefix line ''#''" and b: "CHR ''='' \<in> set line"
      and c: "fst (Cut line (CHR ''='')) = ''ROUTER''"
      by (simp_all add: isRouterLine_def)
    from b have d: "snd (snd (Cut line (CHR ''='')))" by (simp add: Cut_def)
    obtain key val ok where e: "Cut line (CHR ''='') = (key, val, ok)"
      by (cases "Cut line (CHR ''='')") auto
    have "scanLease w (line # rest) = ParseAddr w (fst (snd (Cut line (CHR ''=''))))"
      using a c d e by simp
    moreover have "routerValue (line # rest) = Some (fst (snd (Cut line (CHR ''=''))))"
      using True by (simp add: routerValue_def)
    ultimately show ?thesis by simp
  next
    case False
    then have "routerValue (line # rest) = routerValue rest"
      by (simp add: routerValue_def)
    moreover from False have "scanLease w (line # rest) = scanLease w rest"
      by (auto simp add: isRouterLine_def Cut_def split: prod.splits)
    ultimately show ?thesis using Cons.IH by simp
  qed
qed

lemma mutations_simps:
  "mutations [] = []"
  "mutations (Log c d # xs) = mutations xs"
  "mutations (NetlinkRouteGet s # xs) = mutations xs"
  "mutations (NetInterfaceByIndex i # xs) = mutations xs"
  "mutations (ExecPing a b # xs) = mutations xs"
  "mutations (NetlinkRouteDel r # xs) = NetlinkRouteDel r # mutations xs"
  "mutations (NetlinkRouteAdd r # xs) = NetlinkRouteAdd r # mutations xs"
  "mutations (OsOpenLease i # xs) = mutations xs"
  "mutations (ExecDhcpcd a # xs) = mutations xs"
  "mutations (xs @ ys) = mutations xs @ mutations ys"
  by (simp_all add: mutations_def isMutation_def)

lemma mutations_inspect: "mutations (fst (getDefaultRouteInterface w)) = []"
  by (simp add: getDefaultRouteInterface_def mutations_simps split: sum.splits list.splits)

lemma mutations_switch:
  "mutations (fst (switchDefaultRoute w oldDev oldGw newDev newGw)) =
     [NetlinkRouteDel (defaultRoute oldDev oldGw), NetlinkRouteAdd (defaultRoute newDev newGw)]"
  by (simp add: switchDefaultRoute_def mutations_simps split: option.splits)

lemma mutations_doCheckOnce:
  "mutations (fst (doCheckOnce w primary primaryGw backup backupGw)) =
     (if flagDryRun w then []
      else if ping w (Name primary) (flagCheckIP w) = None
              \<and> snd (getDefaultRouteInterface w) = Inr (Name backup)
        then [NetlinkRouteDel (defaultRoute backup backupGw),
              NetlinkRouteAdd (defaultRoute primary primaryGw)]
      else if ping w (Name primary) (flagCheckIP w) \<noteq> None
              \<and> snd (getDefaultRouteInterface w) = Inr (Name primary)
        then [NetlinkRouteDel (defaultRoute primary primaryGw),
              NetlinkRouteAdd (defaultRoute backup backupGw)]
      else [])"
proof (cases "getDefaultRouteInterface w")
  case (Pair t r)
  have t: "mutations t = []" using mutations_inspect [of w] Pair by simp
  show ?thesis
  proof (cases r)
    case (Inl err)
    with Pair t show ?thesis by (simp add: doCheckOnce_def)
  next
    case (Inr cur)
    show ?thesis
    proof (cases "ping w (Name primary) (flagCheckIP w)")
      case None
      with Pair Inr t show ?thesis
        by (simp add: doCheckOnce_def mutations_simps mutations_switch)
    next
      case (Some perr)
      with Pair Inr t show ?thesis
        by (simp add: doCheckOnce_def mutations_simps mutations_switch)
    qed
  qed
qed

lemma host_inspect:
  "getDefaultRouteInterface host =
     ([NetlinkRouteGet ''8.8.8.8'', NetInterfaceByIndex 2], Inr ''eth0'')"
  by (simp add: getDefaultRouteInterface_def host_def dst_def eth0_def)

lemma doCheckOnce_up:
  assumes "snd (getDefaultRouteInterface w) = Inr (Name backup)"
      and "ping w (Name primary) (flagCheckIP w) = None" and "\<not> flagDryRun w"
  shows "doCheckOnce w primary primaryGw backup backupGw =
           (fst (getDefaultRouteInterface w)
            @ [ExecPing (Name primary) (flagCheckIP w),
               Log ''primary interface up; switching from backup -> primary'' []]
            @ fst (switchDefaultRoute w backup backupGw primary primaryGw),
            snd (switchDefaultRoute w backup backupGw primary primaryGw))"
  using assms by (cases "getDefaultRouteInterface w") (simp add: doCheckOnce_def)

lemma doCheckOnce_down:
  assumes "snd (getDefaultRouteInterface w) = Inr (Name primary)"
      and "ping w (Name primary) (flagCheckIP w) \<noteq> None" and "\<not> flagDryRun w"
  shows "doCheckOnce w primary primaryGw backup backupGw =
           (fst (getDefaultRouteInterface w)
            @ [ExecPing (Name primary) (flagCheckIP w),
               Log ''primary interface down; switching from primary -> backup'' []]
            @ fst (switchDefaultRoute w primary primaryGw backup backupGw),
            snd (switchDefaultRoute w primary primaryGw backup backupGw))"
  using assms by (cases "getDefaultRouteInterface w") (auto simp add: doCheckOnce_def)

lemma doCheckOnce_exactly_when:
  assumes insp: "snd (getDefaultRouteInterface w) = Inr cur"
      and live: "\<not> flagDryRun w"
      and ne: "defaultRoute backup backupGw \<noteq> defaultRoute primary primaryGw"
  shows "(mutations (fst (doCheckOnce w primary primaryGw backup backupGw)) =
              [NetlinkRouteDel (defaultRoute backup backupGw),
               NetlinkRouteAdd (defaultRoute primary primaryGw)]) =
           (ping w (Name primary) (flagCheckIP w) = None \<and> cur = Name backup)"
    and "(mutations (fst (doCheckOnce w primary primaryGw backup backupGw)) =
              [NetlinkRouteDel (defaultRoute primary primaryGw),
               NetlinkRouteAdd (defaultRoute backup backupGw)]) =
           (ping w (Name primary) (flagCheckIP w) \<noteq> None \<and> cur = Name primary)"
  using insp live ne by (auto simp add: mutations_doCheckOnce)

section \<open>The claims\<close>

subsection \<open>C1: which cycles switch, and in which direction\<close>

text \<open>
  Claim C1. In a check cycle whose route inspection succeeds, with dry-run off: when the
  probe over the primary interface succeeds and the inspector names the backup interface,
  the cycle runs the Route Switcher from backup to primary (its calls and its result are
  those of the cycle, after the inspection, the probe and one log line); when the probe
  fails and the inspector names the primary interface, it runs the switcher from primary to
  backup; in every other case, also when the active interface is neither of the two, the
  cycle issues no route mutation. The two switching cases exclude each other, so the three
  cases fix what every such cycle does. Where the default route through the backup and the
  one through the primary are different routes, the delete and add of each direction are
  issued in exactly the cycles of its case.
\<close>

theorem doCheckOnce_switch_decision:
  assumes insp: "snd (getDefaultRouteInterface w) = Inr cur"
      and live: "\<not> flagDryRun w"
  shows "(ping w (Name primary) (flagCheckIP w) = None \<and> cur = Name backup \<longrightarrow>
            doCheckOnce w primary primaryGw backup backupGw =
              (fst (getDefaultRouteInterface w)
               @ [ExecPing (Name primary) (flagCheckIP w),
                  Log ''primary interface up; switching from backup -> primary'' []]
               @ fst (switchDefaultRoute w backup backupGw primary primaryGw),
               snd (switchDefaultRoute w backup backupGw primary primaryGw))
            \<and> mutations (fst (doCheckOnce w primary primaryGw backup backupGw)) =
              [NetlinkRouteDel (defaultRoute backup backupGw),
               NetlinkRouteAdd (defaultRoute primary primaryGw)])
       \<and> (ping w (Name primary) (flagCheckIP w) \<noteq> None \<and> cur = Name primary \<longrightarrow>
            doCheckOnce w primary primaryGw backup backupGw =
              (fst (getDefaultRouteInterface w)
               @ [ExecPing (Name primary) (flagCheckIP w),
                  Log ''primary interface down; switching from primary -> backup'' []]
               @ fst (switchDefaultRoute w primary primaryGw backup backupGw),
               snd (switchDefaultRoute w primary primaryGw backup backupGw))
            \<and> mutations (fst (doCheckOnce w primary primaryGw backup backupGw)) =
              [NetlinkRouteDel (defaultRoute primary primaryGw),
               NetlinkRouteAdd (defaultRoute backup backupGw)])
       \<and> (\<not> (ping w (Name primary) (flagCheckIP w) = None \<and> cur = Name backup)
          \<and> \<not> (ping w (Name primary) (flagCheckIP w) \<noteq> None \<and> cur = Name primary) \<longrightarrow>
            mutations (fst (doCheckOnce w primary primaryGw backup backupGw)) = [])
       \<and> (defaultRoute backup backupGw \<noteq> defaultRoute primary primaryGw \<longrightarrow>
            ((mutations (fst (doCheckOnce w primary primaryGw backup backupGw)) =
                [NetlinkRouteDel (defaultRoute backup backupGw),
                 NetlinkRouteAdd (defaultRoute primary primaryGw)]) =
             (ping w (Name primary) (flagCheckIP w) = None \<and> cur = Name backup))
            \<and> ((mutations (fst (doCheckOnce w primary primaryGw backup backupGw)) =
                [NetlinkRouteDel (defaultRoute primary primaryGw),
                 NetlinkRouteAdd (defaultRoute backup backupGw)]) =
             (ping w (Name primary) (flagCheckIP w) \<noteq> None \<and> cur = Name primary)))"
proof (intro conjI impI)
  assume "ping w (Name primary) (flagCheckIP w) = None \<and> cur = Name backup"
  then show "doCheckOnce w primary primaryGw backup backupGw =
              (fst (getDefaultRouteInterface w)
               @ [ExecPing (Name primary) (flagCheckIP w),
                  Log ''primary interface up; switching from backup -> primary'' []]
               @ fst (switchDefaultRoute w backup backupGw primary primaryGw),
               snd (switchDefaultRoute w backup backupGw primary primaryGw))"
    using insp live by (simp add: doCheckOnce_up)
next
  assume "ping w (Name primary) (flagCheckIP w) = None \<and> cur = Name backup"
  then show "mutations (fst (doCheckOnce w primary primaryGw backup backupGw)) =
              [NetlinkRouteDel (defaultRoute backup backupGw),
               NetlinkRouteAdd (defaultRoute primary primaryGw)]"
    using insp live by (simp add: mutations_doCheckOnce)
next
  assume "ping w (Name primary) (flagCheckIP w) \<noteq> None \<and> cur = Name primary"
  then show "doCheckOnce w primary primaryGw backup backupGw =
              (fst (getDefaultRouteInterface w)
               @ [ExecPing (Name primary) (flagCheckIP w),
                  Log ''primary interface down; switching from primary -> backup'' []]
               @ fst (switchDefaultRoute w primary primaryGw backup backupGw),
               snd (switchDefaultRoute w primary primaryGw backup backupGw))"
    using insp live by (simp add: doCheckOnce_down)
next
  assume "ping w (Name primary) (flagCheckIP w) \<noteq> None \<and> cur = Name primary"
  then show "mutations (fst (doCheckOnce w primary primaryGw backup backupGw)) =
              [NetlinkRouteDel (defaultRoute primary primaryGw),
               NetlinkRouteAdd (defaultRoute backup backupGw)]"
    using insp live by (auto simp add: mutations_doCheckOnce)
next
  assume "\<not> (ping w (Name primary) (flagCheckIP w) = None \<and> cur = Name backup)
          \<and> \<not> (ping w (Name primary) (flagCheckIP w) \<noteq> None \<and> cur = Name primary)"
  then show "mutations (fst (doCheckOnce w primary primaryGw backup backupGw)) = []"
    using insp live by (simp add: mutations_doCheckOnce)
next
  assume "defaultRoute backup backupGw \<noteq> defaultRoute primary primaryGw"
  with insp live
  show "(mutations (fst (doCheckOnce w primary primaryGw backup backupGw)) =
                [NetlinkRouteDel (defaultRoute backup backupGw),
                 NetlinkRouteAdd (defaultRoute primary primaryGw)]) =
             (ping w (Name primary) (flagCheckIP w) = None \<and> cur = Name backup)"
    by (rule doCheckOnce_exactly_when)
next
  assume "defaultRoute backup backupGw \<noteq> defaultRoute primary primaryGw"
  with insp live
  show "(mutations (fst (doCheckOnce w primary primaryGw backup backupGw)) =
                [NetlinkRouteDel (defaultRoute primary primaryGw),
                 NetlinkRouteAdd (defaultRoute backup backupGw)]) =
             (ping w (Name primary) (flagCheckIP w) \<noteq> None \<and> cur = Name primary)"
    by (rule doCheckOnce_exactly_when)
qed

theorem doCheckOnce_switch_decision_witness:
  "snd (getDefaultRouteInterface host) = Inr ''eth0'' \<and> \<not> flagDryRun host
   \<and> ping host ''eth0'' ''8.8.8.8'' = Some (OsError ''exit status 1'')
   \<and> defaultRoute wwan0 (IPv4 192 168 8 1) \<noteq> defaultRoute eth0 (IPv4 10 0 0 1)
   \<and> mutations (fst (doCheckOnce host eth0 (IPv4 10 0 0 1) wwan0 (IPv4 192 168 8 1))) =
       [NetlinkRouteDel (defaultRoute eth0 (IPv4 10 0 0 1)),
        NetlinkRouteAdd (defaultRoute wwan0 (IPv4 192 168 8 1))]
   \<and> mutations (fst (doCheckOnce host eth0 (IPv4 10 0 0 1) wwan0 (IPv4 192 168 8 1))) \<noteq>
       [NetlinkRouteDel (defaultRoute wwan0 (IPv4 192 168 8 1)),
        NetlinkRouteAdd (defaultRoute eth0 (IPv4 10 0 0 1))]
   \<and> snd (getDefaultRouteInterface
            (host\<lparr>RouteGet := (\<lambda>d. Inr [\<lparr>Dst = ''0.0.0.0/0'', LinkIndex = 3, Gw = None\<rparr>]),
                  ping := (\<lambda>n ip. None)\<rparr>)) = Inr ''wwan0''
   \<and> mutations (fst (doCheckOnce
            (host\<lparr>RouteGet := (\<lambda>d. Inr [\<lparr>Dst = ''0.0.0.0/0'', LinkIndex = 3, Gw = None\<rparr>]),
                  ping := (\<lambda>n ip. None)\<rparr>)
            eth0 (IPv4 10 0 0 1) wwan0 (IPv4 192 168 8 1))) =
       [NetlinkRouteDel (defaultRoute wwan0 (IPv4 192 168 8 1)),
        NetlinkRouteAdd (defaultRoute eth0 (IPv4 10 0 0 1))]"
proof -
  let ?up = "host\<lparr>RouteGet := (\<lambda>d. Inr [\<lparr>Dst = ''0.0.0.0/0'', LinkIndex = 3, Gw = None\<rparr>]),
                  ping := (\<lambda>n ip. None)\<rparr>"
  have a: "snd (getDefaultRouteInterface host) = Inr ''eth0''"
    by (simp add: host_inspect)
  have b: "\<not> flagDryRun host"
    by (simp add: host_def)
  have c: "ping host ''eth0'' ''8.8.8.8'' = Some (OsError ''exit status 1'')"
    by (simp add: host_def)
  have d: "Name eth0 = ''eth0''" "flagCheckIP host = ''8.8.8.8''"
    by (simp_all add: eth0_def host_def)
  have e: "ping host (Name eth0) (flagCheckIP host) \<noteq> None \<and> ''eth0'' = Name eth0"
    using c d by simp
  have ne: "defaultRoute wwan0 (IPv4 192 168 8 1) \<noteq> defaultRoute eth0 (IPv4 10 0 0 1)"
    by (simp add: defaultRoute_def)
  note down = doCheckOnce_switch_decision [OF a b, where primary = eth0 and backup = wwan0
      and primaryGw = "IPv4 10 0 0 1" and backupGw = "IPv4 192 168 8 1"]
  from down e
  have f: "mutations (fst (doCheckOnce host eth0 (IPv4 10 0 0 1) wwan0 (IPv4 192 168 8 1))) =
       [NetlinkRouteDel (defaultRoute eth0 (IPv4 10 0 0 1)),
        NetlinkRouteAdd (defaultRoute wwan0 (IPv4 192 168 8 1))]"
    by blast
  from down ne e
  have g: "mutations (fst (doCheckOnce host eth0 (IPv4 10 0 0 1) wwan0 (IPv4 192 168 8 1))) \<noteq>
       [NetlinkRouteDel (defaultRoute wwan0 (IPv4 192 168 8 1)),
        NetlinkRouteAdd (defaultRoute eth0 (IPv4 10 0 0 1))]"
    by blast
  have a': "snd (getDefaultRouteInterface ?up) = Inr ''wwan0''"
    by (simp add: getDefaultRouteInterface_def host_def wwan0_def)
  have b': "\<not> flagDryRun ?up"
    by (simp add: host_def)
  have e': "ping ?up (Name eth0) (flagCheckIP ?up) = None \<and> ''wwan0'' = Name wwan0"
    by (simp add: wwan0_def)
  from doCheckOnce_switch_decision [OF a' b', where primary = eth0 and backup = wwan0
      and primaryGw = "IPv4 10 0 0 1" and backupGw = "IPv4 192 168 8 1"] e'
  have h: "mutations (fst (doCheckOnce ?up eth0 (IPv4 10 0 0 1) wwan0 (IPv4 192 168 8 1))) =
       [NetlinkRouteDel (defaultRoute wwan0 (IPv4 192 168 8 1)),
        NetlinkRouteAdd (defaultRoute eth0 (IPv4 10 0 0 1))]"
    by blast
  from a b c ne f g a' h show ?thesis by blast
qed

subsection \<open>C2: the switcher deletes, then adds\<close>

text \<open>
  Claim C2. Every run of the Route Switcher attempts the delete of the old default route
  first (destination \<^verbatim>\<open>0.0.0.0/0\<close>, the old interface's index, the old gateway) and the add
  of the new default route after it (the same destination, the new interface's index, the
  new gateway), whatever the delete answered; an error of the delete is logged between the
  two and has no influence on the result; the result is the answer of the add.
\<close>

theorem switchDefaultRoute_delete_then_add:
  "mutations (fst (switchDefaultRoute w oldDev oldGw newDev newGw)) =
     [NetlinkRouteDel \<lparr>Dst = ''0.0.0.0/0'', LinkIndex = Index oldDev, Gw = Some oldGw\<rparr>,
      NetlinkRouteAdd \<lparr>Dst = ''0.0.0.0/0'', LinkIndex = Index newDev, Gw = Some newGw\<rparr>]
   \<and> snd (switchDefaultRoute w oldDev oldGw newDev newGw) =
       RouteAdd w \<lparr>Dst = ''0.0.0.0/0'', LinkIndex = Index newDev, Gw = Some newGw\<rparr>
   \<and> snd (switchDefaultRoute (w\<lparr>RouteDel := del\<rparr>) oldDev oldGw newDev newGw) =
       snd (switchDefaultRoute w oldDev oldGw newDev newGw)
   \<and> (RouteDel w \<lparr>Dst = ''0.0.0.0/0'', LinkIndex = Index oldDev, Gw = Some oldGw\<rparr> = None \<longrightarrow>
         fst (switchDefaultRoute w oldDev oldGw newDev newGw) =
           [NetlinkRouteDel \<lparr>Dst = ''0.0.0.0/0'', LinkIndex = Index oldDev, Gw = Some oldGw\<rparr>,
            NetlinkRouteAdd \<lparr>Dst = ''0.0.0.0/0'', LinkIndex = Index newDev, Gw = Some newGw\<rparr>])
   \<and> (\<forall>err. RouteDel w \<lparr>Dst = ''0.0.0.0/0'', LinkIndex = Index oldDev, Gw = Some oldGw\<rparr> =
               Some err \<longrightarrow>
         fst (switchDefaultRoute w oldDev oldGw newDev newGw) =
           [NetlinkRouteDel \<lparr>Dst = ''0.0.0.0/0'', LinkIndex = Index oldDev, Gw = Some oldGw\<rparr>,
            Log ''error removing old default route: %v'' [ArgErr err],
            NetlinkRouteAdd \<lparr>Dst = ''0.0.0.0/0'', LinkIndex = Index newDev, Gw = Some newGw\<rparr>])"
  by (simp add: mutations_switch) (simp add: switchDefaultRoute_def defaultRoute_def defaultDst_def)

theorem switchDefaultRoute_delete_then_add_witness:
  "RouteDel (host\<lparr>RouteDel := (\<lambda>r. if LinkIndex r = 3 then Some (OsError ''no such process'') else None),
                  RouteAdd := (\<lambda>r. if r = \<lparr>Dst = ''0.0.0.0/0'', LinkIndex = 2, Gw = Some (IPv4 10 0 0 1)\<rparr>
                                     then None else Some (OsError ''invalid argument''))\<rparr>)
      \<lparr>Dst = ''0.0.0.0/0'', LinkIndex = 3, Gw = Some (IPv4 192 168 8 1)\<rparr> =
     Some (OsError ''no such process'')
   \<and> switchDefaultRoute
        (host\<lparr>RouteDel := (\<lambda>r. if LinkIndex r = 3 then Some (OsError ''no such process'') else None),
              RouteAdd := (\<lambda>r. if r = \<lparr>Dst = ''0.0.0.0/0'', LinkIndex = 2, Gw = Some (IPv4 10 0 0 1)\<rparr>
                                 then None else Some (OsError ''invalid argument''))\<rparr>)
        wwan0 (IPv4 192 168 8 1) eth0 (IPv4 10 0 0 1) =
       ([NetlinkRouteDel \<lparr>Dst = ''0.0.0.0/0'', LinkIndex = 3, Gw = Some (IPv4 192 168 8 1)\<rparr>,
         Log ''error removing old default route: %v'' [ArgErr (OsError ''no such process'')],
         NetlinkRouteAdd \<lparr>Dst = ''0.0.0.0/0'', LinkIndex = 2, Gw = Some (IPv4 10 0 0 1)\<rparr>],
        None)
   \<and> RouteDel (host\<lparr>RouteDel := (\<lambda>r. None)\<rparr>)
        \<lparr>Dst = ''0.0.0.0/0'', LinkIndex = 2, Gw = Some (IPv4 10 0 0 1)\<rparr> = None
   \<and> switchDefaultRoute (host\<lparr>RouteDel := (\<lambda>r. None)\<rparr>)
        eth0 (IPv4 10 0 0 1) wwan0 (IPv4 192 168 8 1) =
       ([NetlinkRouteDel \<lparr>Dst = ''0.0.0.0/0'', LinkIndex = 2, Gw = Some (IPv4 10 0 0 1)\<rparr>,
         NetlinkRouteAdd \<lparr>Dst = ''0.0.0.0/0'', LinkIndex = 3, Gw = Some (IPv4 192 168 8 1)\<rparr>],
        Some (OsError ''operation not permitted''))"
proof -
  let ?w = "host\<lparr>RouteDel := (\<lambda>r. if LinkIndex r = 3 then Some (OsError ''no such process'') else None),
                  RouteAdd := (\<lambda>r. if r = \<lparr>Dst = ''0.0.0.0/0'', LinkIndex = 2, Gw = Some (IPv4 10 0 0 1)\<rparr>
                                     then None else Some (OsError ''invalid argument''))\<rparr>"
  let ?v = "host\<lparr>RouteDel := (\<lambda>r. None)\<rparr>"
  let ?rw = "\<lparr>Dst = ''0.0.0.0/0'', LinkIndex = 3, Gw = Some (IPv4 192 168 8 1)\<rparr>"
  let ?re = "\<lparr>Dst = ''0.0.0.0/0'', LinkIndex = 2, Gw = Some (IPv4 10 0 0 1)\<rparr>"
  have i: "Index wwan0 = 3" "Index eth0 = 2"
    by (simp_all add: wwan0_def eth0_def)
  have a: "RouteDel ?w ?rw = Some (OsError ''no such process'')"
    by simp
  have b: "RouteAdd ?w ?re = None"
    by simp
  have c: "RouteDel ?v ?re = None"
    by simp
  have d: "RouteAdd ?v ?rw = Some (OsError ''operation not permitted'')"
    by (simp add: host_def)
  note t1 = switchDefaultRoute_delete_then_add [where w = ?w and oldDev = wwan0
      and oldGw = "IPv4 192 168 8 1" and newDev = eth0 and newGw = "IPv4 10 0 0 1", unfolded i]
  note t2 = switchDefaultRoute_delete_then_add [where w = ?v and oldDev = eth0
      and oldGw = "IPv4 10 0 0 1" and newDev = wwan0 and newGw = "IPv4 192 168 8 1", unfolded i]
  from t1 a have "fst (switchDefaultRoute ?w wwan0 (IPv4 192 168 8 1) eth0 (IPv4 10 0 0 1)) =
       [NetlinkRouteDel ?rw,
        Log ''error removing old default route: %v'' [ArgErr (OsError ''no such process'')],
        NetlinkRouteAdd ?re]"
    by blast
  moreover from t1 b have "snd (switchDefaultRoute ?w wwan0 (IPv4 192 168 8 1) eth0 (IPv4 10 0 0 1)) = None"
    by simp
  ultimately have e: "switchDefaultRoute ?w wwan0 (IPv4 192 168 8 1) eth0 (IPv4 10 0 0 1) =
       ([NetlinkRouteDel ?rw,
         Log ''error removing old default route: %v'' [ArgErr (OsError ''no such process'')],
         NetlinkRouteAdd ?re], None)"
    by (simp add: prod_eq_iff)
  from t2 c have "fst (switchDefaultRoute ?v eth0 (IPv4 10 0 0 1) wwan0 (IPv4 192 168 8 1)) =
       [NetlinkRouteDel ?re, NetlinkRouteAdd ?rw]"
    by blast
  moreover from t2 d have "snd (switchDefaultRoute ?v eth0 (IPv4 10 0 0 1) wwan0 (IPv4 192 168 8 1)) =
       Some (OsError ''operation not permitted'')"
    by simp
  ultimately have f: "switchDefaultRoute ?v eth0 (IPv4 10 0 0 1) wwan0 (IPv4 192 168 8 1) =
       ([NetlinkRouteDel ?re, NetlinkRouteAdd ?rw], Some (OsError ''operation not permitted''))"
    by (simp add: prod_eq_iff)
  from a e c f show ?thesis by blast
qed

subsection \<open>C3: two cycles in a row\<close>

text \<open>
  Claim C3 says that two consecutive cycles with the same probe outcome and the same
  inspected route issue no route mutation. On the host below the probe fails, the route is
  on the primary interface and the kernel refuses both netlink writes, so the second cycle
  finds what the first found: each of the two cycles issues a delete and an add.
\<close>

theorem two_cycles_counterexample:
  "snd (getDefaultRouteInterface host) = Inr (Name eth0)
   \<and> ping host (Name eth0) (flagCheckIP host) = Some (OsError ''exit status 1'')
   \<and> mutations (fst (doCheckOnce host eth0 (IPv4 10 0 0 1) wwan0 (IPv4 192 168 8 1)))
     @ mutations (fst (doCheckOnce host eth0 (IPv4 10 0 0 1) wwan0 (IPv4 192 168 8 1))) =
       [NetlinkRouteDel (defaultRoute eth0 (IPv4 10 0 0 1)),
        NetlinkRouteAdd (defaultRoute wwan0 (IPv4 192 168 8 1)),
        NetlinkRouteDel (defaultRoute eth0 (IPv4 10 0 0 1)),
        NetlinkRouteAdd (defaultRoute wwan0 (IPv4 192 168 8 1))]"
proof -
  have a: "snd (getDefaultRouteInterface host) = Inr (Name eth0)"
    by (simp add: host_inspect eth0_def)
  have b: "ping host (Name eth0) (flagCheckIP host) = Some (OsError ''exit status 1'')"
    by (simp add: host_def)
  have c: "\<not> flagDryRun host" by (simp add: host_def)
  show ?thesis using a b c by (simp add: mutations_doCheckOnce)
qed

text \<open>
  Claim C3, amended. Two consecutive cycles with the same probe outcome and the same
  inspected route (the dry-run flag is a constant of the process) issue the same route
  mutations; none is issued across the two exactly when dry-run is on or the cycles are in
  neither switching case: not (probe succeeded, backup active) and not (probe failed,
  primary active).
\<close>

theorem two_cycles_same_mutations:
  assumes route: "snd (getDefaultRouteInterface w1) = snd (getDefaultRouteInterface w2)"
      and probe: "(ping w1 (Name primary) (flagCheckIP w1) = None) =
                  (ping w2 (Name primary) (flagCheckIP w2) = None)"
      and flag: "flagDryRun w1 = flagDryRun w2"
  shows "mutations (fst (doCheckOnce w2 primary primaryGw backup backupGw)) =
           mutations (fst (doCheckOnce w1 primary primaryGw backup backupGw))
       \<and> ((mutations (fst (doCheckOnce w1 primary primaryGw backup backupGw))
            @ mutations (fst (doCheckOnce w2 primary primaryGw backup backupGw)) = []) =
          (flagDryRun w1
           \<or> \<not> (ping w1 (Name primary) (flagCheckIP w1) = None
                 \<and> snd (getDefaultRouteInterface w1) = Inr (Name backup))
             \<and> \<not> (ping w1 (Name primary) (flagCheckIP w1) \<noteq> None
                 \<and> snd (getDefaultRouteInterface w1) = Inr (Name primary))))"
proof -
  have same: "mutations (fst (doCheckOnce w2 primary primaryGw backup backupGw)) =
           mutations (fst (doCheckOnce w1 primary primaryGw backup backupGw))"
    using route probe flag by (auto simp add: mutations_doCheckOnce)
  have none: "(mutations (fst (doCheckOnce w1 primary primaryGw backup backupGw)) = []) =
          (flagDryRun w1
           \<or> \<not> (ping w1 (Name primary) (flagCheckIP w1) = None
                 \<and> snd (getDefaultRouteInterface w1) = Inr (Name backup))
             \<and> \<not> (ping w1 (Name primary) (flagCheckIP w1) \<noteq> None
                 \<and> snd (getDefaultRouteInterface w1) = Inr (Name primary)))"
    by (auto simp add: mutations_doCheckOnce)
  from same none show ?thesis by simp
qed


theorem two_cycles_same_mutations_witness:
  "snd (getDefaultRouteInterface (host\<lparr>RouteGet := (\<lambda>d. Inr [\<lparr>Dst = ''8.8.8.8/32'', LinkIndex = 3, Gw = None\<rparr>])\<rparr>)) =
     snd (getDefaultRouteInterface (host\<lparr>RouteGet := (\<lambda>d. Inr [\<lparr>Dst = ''0.0.0.0/0'', LinkIndex = 3, Gw = None\<rparr>])\<rparr>))
   \<and> mutations (fst (doCheckOnce (host\<lparr>RouteGet := (\<lambda>d. Inr [\<lparr>Dst = ''8.8.8.8/32'', LinkIndex = 3, Gw = None\<rparr>])\<rparr>)
                         eth0 (IPv4 10 0 0 1) wwan0 (IPv4 192 168 8 1)))
     @ mutations (fst (doCheckOnce (host\<lparr>RouteGet := (\<lambda>d. Inr [\<lparr>Dst = ''0.0.0.0/0'', LinkIndex = 3, Gw = None\<rparr>])\<rparr>)
                         eth0 (IPv4 10 0 0 1) wwan0 (IPv4 192 168 8 1))) = []"
proof -
  let ?w1 = "host\<lparr>RouteGet := (\<lambda>d. Inr [\<lparr>Dst = ''8.8.8.8/32'', LinkIndex = 3, Gw = None\<rparr>])\<rparr>"
  let ?w2 = "host\<lparr>RouteGet := (\<lambda>d. Inr [\<lparr>Dst = ''0.0.0.0/0'', LinkIndex = 3, Gw = None\<rparr>])\<rparr>"
  have r1: "snd (getDefaultRouteInterface ?w1) = Inr ''wwan0''"
    by (simp add: getDefaultRouteInterface_def host_def wwan0_def)
  have r2: "snd (getDefaultRouteInterface ?w2) = Inr ''wwan0''"
    by (simp add: getDefaultRouteInterface_def host_def wwan0_def)
  have a: "snd (getDefaultRouteInterface ?w1) = snd (getDefaultRouteInterface ?w2)"
    using r1 r2 by simp
  have b: "(ping ?w1 (Name eth0) (flagCheckIP ?w1) = None) =
           (ping ?w2 (Name eth0) (flagCheckIP ?w2) = None)"
    by (simp add: host_def)
  have c: "flagDryRun ?w1 = flagDryRun ?w2"
    by simp
  have d: "snd (getDefaultRouteInterface ?w1) \<noteq> Inr (Name eth0)"
    using r1 by (simp add: eth0_def)
  have e: "ping ?w1 (Name eth0) (flagCheckIP ?w1) \<noteq> None"
    by (simp add: host_def)
  from two_cycles_same_mutations [OF a b c, of "IPv4 10 0 0 1" wwan0 "IPv4 192 168 8 1"] d e
  have "mutations (fst (doCheckOnce ?w1 eth0 (IPv4 10 0 0 1) wwan0 (IPv4 192 168 8 1)))
     @ mutations (fst (doCheckOnce ?w2 eth0 (IPv4 10 0 0 1) wwan0 (IPv4 192 168 8 1))) = []"
    by blast
  with a show ?thesis by blast
qed

subsection \<open>C4: an explicit gateway\<close>

text \<open>
  Claim C4. For a non-empty explicit gateway string that \<^verbatim>\<open>netip.ParseAddr\<close> accepts, the
  resolver returns the parsed address and makes no external call at all: no lease file is
  opened, no command is run, nothing is logged.
\<close>

theorem parseOrGetGateway_explicit:
  assumes "val \<noteq> []" and "ParseAddr w val = Inr gw"
  shows "parseOrGetGateway w val iface = ([], Inr gw)
       \<and> filter isAutodetect (fst (parseOrGetGateway w val iface)) = []"
  using assms by (simp add: parseOrGetGateway_def)

theorem parseOrGetGateway_explicit_witness:
  "''10.0.0.9'' \<noteq> [] \<and> ParseAddr host ''10.0.0.9'' = Inr (IPv4 10 0 0 9)
   \<and> snd (getGateway host wwan0) = Inr (IPv4 192 168 8 1)
   \<and> parseOrGetGateway host ''10.0.0.9'' wwan0 = ([], Inr (IPv4 10 0 0 9))"
proof -
  have a: "''10.0.0.9'' \<noteq> []" by simp
  have b: "ParseAddr host ''10.0.0.9'' = Inr (IPv4 10 0 0 9)"
    by (simp add: host_def parseDotted_def parseField_def digitOf_def)
  have c: "snd (getGateway host wwan0) = Inr (IPv4 192 168 8 1)"
    by (simp add: getGateway_def getGatewaySystemdNetworkd_def host_def wwan0_def
        HasPrefix_def Cut_def parseDotted_def parseField_def digitOf_def)
  from parseOrGetGateway_explicit [OF a b, of wwan0] b c show ?thesis by simp
qed

subsection \<open>C5: the lease-file backend\<close>

text \<open>
  Claim C5 says that the lease-file backend returns the value of the first line whose key
  is \<^verbatim>\<open>ROUTER\<close>. The lease file of \<^verbatim>\<open>eth0\<close> on the host has such a line, with two routers on it:
  the backend returns the parse error of that value, neither the value nor the not-found
  error, and does not look at the \<^verbatim>\<open>ROUTER\<close> line after it.
\<close>

theorem lease_backend_counterexample:
  "leaseLines host (Index eth0) =
     Inr [''# This is private data. Do not parse.'', ''ADDRESS=10.0.0.7'',
          ''ROUTER=10.0.0.1 10.0.0.2'', ''ROUTER=10.0.0.1'']
   \<and> routerValue [''# This is private data. Do not parse.'', ''ADDRESS=10.0.0.7'',
                   ''ROUTER=10.0.0.1 10.0.0.2'', ''ROUTER=10.0.0.1''] =
        Some ''10.0.0.1 10.0.0.2''
   \<and> getGatewaySystemdNetworkd host eth0 =
        ([OsOpenLease 2], Inl (ParseAddrError ''10.0.0.1 10.0.0.2''))"
  by (simp add: getGatewaySystemdNetworkd_def routerValue_def isRouterLine_def host_def
      eth0_def HasPrefix_def Cut_def parseDotted_def parseField_def digitOf_def)

text \<open>
  Claim C5, amended. The lease-file backend fails with the open error when the file cannot
  be opened. Otherwise it works on the lines that \<^verbatim>\<open>bufio.Scanner\<close> yields from the file,
  which are the lines of the file up to its end or up to the first line the scanner cannot
  deliver (a read error, a line longer than its buffer): the code never reads the scanner's
  error and takes that point for the end of the file. It takes the yielded lines in order,
  passes over lines starting with \<^verbatim>\<open>#\<close> and lines without \<^verbatim>\<open>=\<close>, and at the first line whose key
  is \<^verbatim>\<open>ROUTER\<close> returns what parsing that line's value as an IP address gives: the address, or
  the parse error. When no yielded line has that key it fails with the not-found error.
\<close>

theorem getGatewaySystemdNetworkd_first_router:
  "(\<forall>err. leaseLines w (Index iface) = Inl err \<longrightarrow>
      getGatewaySystemdNetworkd w iface = ([OsOpenLease (Index iface)], Inl err))
   \<and> (\<forall>lines. leaseLines w (Index iface) = Inr lines \<longrightarrow>
        getGatewaySystemdNetworkd w iface =
          ([OsOpenLease (Index iface)],
           case routerValue lines of
             None \<Rightarrow> Inl RouterNotFound
           | Some v \<Rightarrow> ParseAddr w v))"
  by (simp add: getGatewaySystemdNetworkd_def scanLease_routerValue)

theorem getGatewaySystemdNetworkd_first_router_witness:
  "leaseLines host (Index wwan0) =
     Inr [''# This is private data. Do not parse.'', ''NETMASK'',
          ''ROUTER=192.168.8.1'', ''ROUTER=192.168.8.2'']
   \<and> getGatewaySystemdNetworkd host wwan0 = ([OsOpenLease 3], Inr (IPv4 192 168 8 1))
   \<and> leaseLines host (Index \<lparr>Index = 7, Name = ''tun0''\<rparr>) =
       Inl (OsError ''no such file or directory'')
   \<and> getGatewaySystemdNetworkd host \<lparr>Index = 7, Name = ''tun0''\<rparr> =
       ([OsOpenLease 7], Inl (OsError ''no such file or directory''))
   \<and> getGatewaySystemdNetworkd
        (host\<lparr>leaseLines := (\<lambda>i. Inr [''#ROUTER=10.9.9.9'', ''ROUTER'', ''DNS=10.0.0.53'',
                                        ''ROUTER=10.0.0.1#'', ''ROUTER=10.0.0.2''])\<rparr>) eth0 =
       ([OsOpenLease 2], Inl (ParseAddrError ''10.0.0.1#''))
   \<and> getGatewaySystemdNetworkd
        (host\<lparr>leaseLines := (\<lambda>i. Inr [''#ROUTER=10.9.9.9'', ''ROUTER'', ''DNS=10.0.0.53'',
                                        ''router=10.0.0.1''])\<rparr>) eth0 =
       ([OsOpenLease 2], Inl RouterNotFound)"
proof -
  let ?lines = "[''# This is private data. Do not parse.'', ''NETMASK'',
          ''ROUTER=192.168.8.1'', ''ROUTER=192.168.8.2'']"
  let ?hash = "[''#ROUTER=10.9.9.9'', ''ROUTER'', ''DNS=10.0.0.53'',
                ''ROUTER=10.0.0.1#'', ''ROUTER=10.0.0.2'']"
  let ?none = "[''#ROUTER=10.9.9.9'', ''ROUTER'', ''DNS=10.0.0.53'', ''router=10.0.0.1'']"
  let ?wh = "host\<lparr>leaseLines := (\<lambda>i. Inr ?hash)\<rparr>"
  let ?wn = "host\<lparr>leaseLines := (\<lambda>i. Inr ?none)\<rparr>"
  have a: "leaseLines host (Index wwan0) = Inr ?lines"
    by (simp add: host_def wwan0_def)
  have b: "routerValue ?lines = Some ''192.168.8.1''"
    by (simp add: routerValue_def isRouterLine_def HasPrefix_def Cut_def)
  have c: "ParseAddr host ''192.168.8.1'' = Inr (IPv4 192 168 8 1)"
    by (simp add: host_def parseDotted_def parseField_def digitOf_def)
  have d: "Index wwan0 = 3" "Index eth0 = 2" by (simp_all add: wwan0_def eth0_def)
  have e: "leaseLines host (Index \<lparr>Index = 7, Name = ''tun0''\<rparr>) =
       Inl (OsError ''no such file or directory'')"
    by (simp add: host_def)
  from getGatewaySystemdNetworkd_first_router [of host wwan0] a
  have "getGatewaySystemdNetworkd host wwan0 =
          ([OsOpenLease (Index wwan0)],
           case routerValue ?lines of None \<Rightarrow> Inl RouterNotFound | Some v \<Rightarrow> ParseAddr host v)"
    by blast
  then have f: "getGatewaySystemdNetworkd host wwan0 = ([OsOpenLease 3], Inr (IPv4 192 168 8 1))"
    using b c d by simp
  from getGatewaySystemdNetworkd_first_router [of host "\<lparr>Index = 7, Name = ''tun0''\<rparr>"] e
  have g: "getGatewaySystemdNetworkd host \<lparr>Index = 7, Name = ''tun0''\<rparr> =
       ([OsOpenLease 7], Inl (OsError ''no such file or directory''))"
    by simp
  have h1: "leaseLines ?wh (Index eth0) = Inr ?hash" by simp
  have h2: "routerValue ?hash = Some ''10.0.0.1#''"
    by (simp add: routerValue_def isRouterLine_def HasPrefix_def Cut_def)
  have h3: "ParseAddr ?wh ''10.0.0.1#'' = Inl (ParseAddrError ''10.0.0.1#'')"
    by (simp add: host_def parseDotted_def parseField_def digitOf_def)
  from getGatewaySystemdNetworkd_first_router [of ?wh eth0] h1
  have "getGatewaySystemdNetworkd ?wh eth0 =
          ([OsOpenLease (Index eth0)],
           case routerValue ?hash of None \<Rightarrow> Inl RouterNotFound | Some v \<Rightarrow> ParseAddr ?wh v)"
    by blast
  then have h: "getGatewaySystemdNetworkd ?wh eth0 =
       ([OsOpenLease 2], Inl (ParseAddrError ''10.0.0.1#''))"
    using h2 h3 d by simp
  have n1: "leaseLines ?wn (Index eth0) = Inr ?none" by simp
  have n2: "routerValue ?none = None"
    by (simp add: routerValue_def isRouterLine_def HasPrefix_def Cut_def)
  from getGatewaySystemdNetworkd_first_router [of ?wn eth0] n1
  have "getGatewaySystemdNetworkd ?wn eth0 =
          ([OsOpenLease (Index eth0)],
           case routerValue ?none of None \<Rightarrow> Inl RouterNotFound | Some v \<Rightarrow> ParseAddr ?wn v)"
    by blast
  then have n: "getGatewaySystemdNetworkd ?wn eth0 = ([OsOpenLease 2], Inl RouterNotFound)"
    using n2 d by simp
  from a f e g h n show ?thesis by blast
qed

subsection \<open>C6: the Route Inspector\<close>

text \<open>
  Claim C6 names two failures of the Route Inspector, zero routes and a failed lookup of the
  link index, and says that otherwise it returns an interface name. On a host where the
  route query itself fails (the kernel answers that the network is unreachable) neither of
  the two conditions holds, and the inspector returns no name: it fails with the error of
  the query.
\<close>

theorem route_inspector_counterexample:
  "RouteGet (host\<lparr>RouteGet := (\<lambda>d. Inl (OsError ''network is unreachable''))\<rparr>) dst =
     Inl (OsError ''network is unreachable'')
   \<and> getDefaultRouteInterface (host\<lparr>RouteGet := (\<lambda>d. Inl (OsError ''network is unreachable''))\<rparr>) =
       ([NetlinkRouteGet dst], Inl (OsError ''network is unreachable''))"
  by (simp add: getDefaultRouteInterface_def)

text \<open>
  Claim C6, amended. The Route Inspector fails with the error of the route query when the
  query fails; it fails with the no-route error when the query reports zero routes; it fails
  with the lookup error, wrapping the link index and the cause, when the link index of the
  first route maps to no interface; otherwise it returns the name of the interface bound to
  the first route's link index. It issues no route mutation.
\<close>

theorem getDefaultRouteInterface_cases:
  "(\<forall>err. RouteGet w dst = Inl err \<longrightarrow> snd (getDefaultRouteInterface w) = Inl err)
   \<and> (RouteGet w dst = Inr [] \<longrightarrow> snd (getDefaultRouteInterface w) = Inl (NoRoutesTo dst))
   \<and> (\<forall>r rest err. RouteGet w dst = Inr (r # rest) \<and> InterfaceByIndex w (LinkIndex r) = Inl err \<longrightarrow>
         snd (getDefaultRouteInterface w) = Inl (LookingUpLinkIndex (LinkIndex r) err))
   \<and> (\<forall>r rest iface. RouteGet w dst = Inr (r # rest) \<and> InterfaceByIndex w (LinkIndex r) = Inr iface \<longrightarrow>
         snd (getDefaultRouteInterface w) = Inr (Name iface))
   \<and> mutations (fst (getDefaultRouteInterface w)) = []"
  by (simp add: mutations_inspect) (simp add: getDefaultRouteInterface_def)

theorem getDefaultRouteInterface_cases_witness:
  "RouteGet host dst = Inr [\<lparr>Dst = ''8.8.8.8/32'', LinkIndex = 2, Gw = Some (IPv4 10 0 0 1)\<rparr>]
   \<and> InterfaceByIndex host 2 = Inr eth0
   \<and> snd (getDefaultRouteInterface host) = Inr ''eth0''
   \<and> RouteGet (host\<lparr>RouteGet := (\<lambda>d. Inr [])\<rparr>) dst = Inr []
   \<and> snd (getDefaultRouteInterface (host\<lparr>RouteGet := (\<lambda>d. Inr [])\<rparr>)) = Inl (NoRoutesTo dst)
   \<and> InterfaceByIndex (host\<lparr>RouteGet := (\<lambda>d. Inr [\<lparr>Dst = ''8.8.8.8/32'', LinkIndex = 9, Gw = None\<rparr>])\<rparr>) 9 =
       Inl (OsError ''no such network interface'')
   \<and> snd (getDefaultRouteInterface
            (host\<lparr>RouteGet := (\<lambda>d. Inr [\<lparr>Dst = ''8.8.8.8/32'', LinkIndex = 9, Gw = None\<rparr>])\<rparr>)) =
       Inl (LookingUpLinkIndex 9 (OsError ''no such network interface''))"
proof -
  let ?r = "\<lparr>Dst = ''8.8.8.8/32'', LinkIndex = 2, Gw = Some (IPv4 10 0 0 1)\<rparr>"
  let ?q = "\<lparr>Dst = ''8.8.8.8/32'', LinkIndex = 9, Gw = None :: Addr option\<rparr>"
  let ?w0 = "host\<lparr>RouteGet := (\<lambda>d. Inr [])\<rparr>"
  let ?w9 = "host\<lparr>RouteGet := (\<lambda>d. Inr [?q])\<rparr>"
  have a: "RouteGet host dst = Inr [?r]" by (simp add: host_def)
  have b: "InterfaceByIndex host 2 = Inr eth0" by (simp add: host_def)
  have c: "RouteGet ?w0 dst = Inr []" by simp
  have d: "RouteGet ?w9 dst = Inr [?q]" by simp
  have e: "InterfaceByIndex ?w9 9 = Inl (OsError ''no such network interface'')"
    by (simp add: host_def)
  from getDefaultRouteInterface_cases [of host] a b
  have f: "snd (getDefaultRouteInterface host) = Inr (Name eth0)" by simp
  from getDefaultRouteInterface_cases [of ?w0] c
  have g: "snd (getDefaultRouteInterface ?w0) = Inl (NoRoutesTo dst)" by blast
  from getDefaultRouteInterface_cases [of ?w9] d e
  have h: "snd (getDefaultRouteInterface ?w9) =
             Inl (LookingUpLinkIndex 9 (OsError ''no such network interface''))" by simp
  from a b c e f g h show ?thesis by (simp add: eth0_def)
qed

subsection \<open>C7: dry-run\<close>

text \<open>
  Claim C7. With the dry-run flag set, a check cycle issues no route delete and no route
  add. It makes the same inspection and the same probe and writes the same decision line as
  the cycle with the flag cleared, in the same order; the cycle with the flag cleared goes
  on from there with what the Route Switcher does, if the decision is to switch.
\<close>

theorem dry_run_same_decision_no_mutation:
  assumes "flagDryRun w"
  shows "mutations (fst (doCheckOnce w primary primaryGw backup backupGw)) = []
       \<and> (\<exists>rest. fst (doCheckOnce (w\<lparr>flagDryRun := False\<rparr>) primary primaryGw backup backupGw) =
                   fst (doCheckOnce w primary primaryGw backup backupGw) @ rest
                 \<and> (rest = []
                    \<or> rest = fst (switchDefaultRoute w backup backupGw primary primaryGw)
                    \<or> rest = fst (switchDefaultRoute w primary primaryGw backup backupGw)))"
proof
  show "mutations (fst (doCheckOnce w primary primaryGw backup backupGw)) = []"
    using assms by (simp add: mutations_doCheckOnce)
next
  have sw: "switchDefaultRoute (w\<lparr>flagDryRun := False\<rparr>) a b c d = switchDefaultRoute w a b c d"
    for a b c d
    by (simp add: switchDefaultRoute_def)
  have insp: "getDefaultRouteInterface (w\<lparr>flagDryRun := False\<rparr>) = getDefaultRouteInterface w"
    by (simp add: getDefaultRouteInterface_def split: sum.splits list.splits)
  show "\<exists>rest. fst (doCheckOnce (w\<lparr>flagDryRun := False\<rparr>) primary primaryGw backup backupGw) =
                   fst (doCheckOnce w primary primaryGw backup backupGw) @ rest
                 \<and> (rest = []
                    \<or> rest = fst (switchDefaultRoute w backup backupGw primary primaryGw)
                    \<or> rest = fst (switchDefaultRoute w primary primaryGw backup backupGw))"
  proof (cases "getDefaultRouteInterface w")
    case (Pair t r)
    show ?thesis
    proof (cases r)
      case (Inl err)
      with Pair insp show ?thesis by (simp add: doCheckOnce_def)
    next
      case (Inr cur)
      show ?thesis
      proof (cases "ping w (Name primary) (flagCheckIP w)")
        case None
        with Pair Inr insp assms show ?thesis by (simp add: doCheckOnce_def sw)
      next
        case (Some perr)
        with Pair Inr insp assms show ?thesis by (simp add: doCheckOnce_def sw)
      qed
    qed
  qed
qed

theorem dry_run_same_decision_no_mutation_witness:
  "flagDryRun (host\<lparr>flagDryRun := True\<rparr>)
   \<and> doCheckOnce (host\<lparr>flagDryRun := True\<rparr>) eth0 (IPv4 10 0 0 1) wwan0 (IPv4 192 168 8 1) =
       ([NetlinkRouteGet ''8.8.8.8'', NetInterfaceByIndex 2, ExecPing ''eth0'' ''8.8.8.8'',
         Log ''primary interface down; switching from primary -> backup'' []], None)
   \<and> mutations (fst (doCheckOnce (host\<lparr>flagDryRun := True\<rparr>)
                        eth0 (IPv4 10 0 0 1) wwan0 (IPv4 192 168 8 1))) = []"
proof -
  let ?w = "host\<lparr>flagDryRun := True\<rparr>"
  have a: "flagDryRun ?w" by simp
  have b: "doCheckOnce ?w eth0 (IPv4 10 0 0 1) wwan0 (IPv4 192 168 8 1) =
       ([NetlinkRouteGet ''8.8.8.8'', NetInterfaceByIndex 2, ExecPing ''eth0'' ''8.8.8.8'',
         Log ''primary interface down; switching from primary -> backup'' []], None)"
    by (simp add: doCheckOnce_def getDefaultRouteInterface_def host_def eth0_def dst_def)
  from dry_run_same_decision_no_mutation [OF a, of eth0 "IPv4 10 0 0 1" wwan0 "IPv4 192 168 8 1"]
  have "mutations (fst (doCheckOnce ?w eth0 (IPv4 10 0 0 1) wwan0 (IPv4 192 168 8 1))) = []"
    by blast
  with a b show ?thesis by blast
qed

subsection \<open>C8: a failed probe is an outcome, not an error\<close>

text \<open>
  Claim C8. The error the probe process ends with never leaves the cycle: two cycles that
  differ only in the error of the failed probe make the same calls and return the same
  result. An error returned by a cycle is the error of the route inspection, or, with
  dry-run off, the error the kernel gave to a route add the cycle issued.
\<close>

theorem probe_error_not_returned:
  "doCheckOnce (w\<lparr>ping := (\<lambda>n ip. Some e1)\<rparr>) primary primaryGw backup backupGw =
     doCheckOnce (w\<lparr>ping := (\<lambda>n ip. Some e2)\<rparr>) primary primaryGw backup backupGw
   \<and> (\<forall>err. snd (doCheckOnce w primary primaryGw backup backupGw) = Some err \<longrightarrow>
         snd (getDefaultRouteInterface w) = Inl err
         \<or> (\<not> flagDryRun w
            \<and> (\<exists>r. NetlinkRouteAdd r \<in> set (fst (doCheckOnce w primary primaryGw backup backupGw))
                    \<and> RouteAdd w r = Some err)))"
proof
  have sw: "switchDefaultRoute (w\<lparr>ping := p\<rparr>) a b c d = switchDefaultRoute w a b c d"
    for p a b c d
    by (simp add: switchDefaultRoute_def)
  have insp: "getDefaultRouteInterface (w\<lparr>ping := p\<rparr>) = getDefaultRouteInterface w" for p
    by (simp add: getDefaultRouteInterface_def split: sum.splits list.splits)
  show "doCheckOnce (w\<lparr>ping := (\<lambda>n ip. Some e1)\<rparr>) primary primaryGw backup backupGw =
     doCheckOnce (w\<lparr>ping := (\<lambda>n ip. Some e2)\<rparr>) primary primaryGw backup backupGw"
    by (simp add: doCheckOnce_def sw insp split: prod.splits sum.splits)
next
  show "\<forall>err. snd (doCheckOnce w primary primaryGw backup backupGw) = Some err \<longrightarrow>
         snd (getDefaultRouteInterface w) = Inl err
         \<or> (\<not> flagDryRun w
            \<and> (\<exists>r. NetlinkRouteAdd r \<in> set (fst (doCheckOnce w primary primaryGw backup backupGw))
                    \<and> RouteAdd w r = Some err))"
  proof (cases "getDefaultRouteInterface w")
    case (Pair t r)
    show ?thesis
    proof (cases r)
      case (Inl ierr)
      with Pair show ?thesis by (simp add: doCheckOnce_def)
    next
      case (Inr cur)
      show ?thesis
      proof (cases "ping w (Name primary) (flagCheckIP w)")
        case None
        with Pair Inr show ?thesis
          by (auto simp add: doCheckOnce_def switchDefaultRoute_def)
      next
        case (Some perr)
        with Pair Inr show ?thesis
          by (auto simp add: doCheckOnce_def switchDefaultRoute_def)
      qed
    qed
  qed
qed

theorem probe_error_not_returned_witness:
  "ping host (Name eth0) (flagCheckIP host) = Some (OsError ''exit status 1'')
   \<and> snd (doCheckOnce host eth0 (IPv4 10 0 0 1) wwan0 (IPv4 192 168 8 1)) =
       Some (OsError ''operation not permitted'')
   \<and> snd (getDefaultRouteInterface host) \<noteq> Inl (OsError ''operation not permitted'')
   \<and> \<not> flagDryRun host
   \<and> (\<exists>r. NetlinkRouteAdd r \<in> set (fst (doCheckOnce host eth0 (IPv4 10 0 0 1) wwan0 (IPv4 192 168 8 1)))
           \<and> RouteAdd host r = Some (OsError ''operation not permitted''))"
proof -
  have a: "ping host (Name eth0) (flagCheckIP host) = Some (OsError ''exit status 1'')"
    by (simp add: host_def)
  have b: "snd (doCheckOnce host eth0 (IPv4 10 0 0 1) wwan0 (IPv4 192 168 8 1)) =
       Some (OsError ''operation not permitted'')"
  proof -
    have "snd (getDefaultRouteInterface host) = Inr (Name eth0)"
      by (simp add: host_inspect eth0_def)
    moreover have "ping host (Name eth0) (flagCheckIP host) \<noteq> None"
      using a by simp
    moreover have "\<not> flagDryRun host"
      by (simp add: host_def)
    ultimately have "doCheckOnce host eth0 (IPv4 10 0 0 1) wwan0 (IPv4 192 168 8 1) =
           (fst (getDefaultRouteInterface host)
            @ [ExecPing (Name eth0) (flagCheckIP host),
               Log ''primary interface down; switching from primary -> backup'' []]
            @ fst (switchDefaultRoute host eth0 (IPv4 10 0 0 1) wwan0 (IPv4 192 168 8 1)),
            snd (switchDefaultRoute host eth0 (IPv4 10 0 0 1) wwan0 (IPv4 192 168 8 1)))"
      by (rule doCheckOnce_down)
    then show ?thesis
      by (simp add: switchDefaultRoute_def host_def)
  qed
  have c: "snd (getDefaultRouteInterface host) \<noteq> Inl (OsError ''operation not permitted'')"
    by (simp add: host_inspect)
  from probe_error_not_returned [where w = host and primary = eth0 and primaryGw = "IPv4 10 0 0 1"
      and backup = wwan0 and backupGw = "IPv4 192 168 8 1"
      and ?e1.0 = "OsError ''exit status 1''" and ?e2.0 = "OsError ''exit status 2''"] b c
  have "\<not> flagDryRun host
   \<and> (\<exists>r. NetlinkRouteAdd r \<in> set (fst (doCheckOnce host eth0 (IPv4 10 0 0 1) wwan0 (IPv4 192 168 8 1)))
           \<and> RouteAdd host r = Some (OsError ''operation not permitted''))"
    by blast
  with a b c show ?thesis by blast
qed

subsection \<open>C9: an explicit gateway that does not parse\<close>

text \<open>
  Claim C9. A non-empty explicit gateway string that \<^verbatim>\<open>netip.ParseAddr\<close> rejects is dropped
  without a trace: the resolver does exactly what it does for the empty string. Its result
  is the result of the autodetection, so it fails exactly when the autodetection fails and
  an address it returns is the autodetected one.
\<close>

theorem parseOrGetGateway_invalid_explicit:
  assumes "val \<noteq> []" and "ParseAddr w val = Inl perr"
  shows "parseOrGetGateway w val iface = parseOrGetGateway w [] iface
       \<and> snd (parseOrGetGateway w val iface) = snd (getGateway w iface)
       \<and> (\<forall>gw. snd (getGateway w iface) = Inr gw \<longrightarrow>
            fst (parseOrGetGateway w val iface) =
              fst (getGateway w iface)
              @ [Log ''autodetected gateway for %s: %v'' [ArgStr (Name iface), ArgAddr gw]])
       \<and> (\<forall>err. snd (getGateway w iface) = Inl err \<longrightarrow>
            fst (parseOrGetGateway w val iface) = fst (getGateway w iface))"
  using assms
  by (cases "getGateway w iface")
     (auto simp add: parseOrGetGateway_def autodetectGateway_def split: sum.splits)

theorem parseOrGetGateway_invalid_explicit_witness:
  "''10.0.0.300'' \<noteq> [] \<and> ParseAddr host ''10.0.0.300'' = Inl (ParseAddrError ''10.0.0.300'')
   \<and> getGateway host wwan0 = ([OsOpenLease 3], Inr (IPv4 192 168 8 1))
   \<and> parseOrGetGateway host ''10.0.0.300'' wwan0 =
       ([OsOpenLease 3,
         Log ''autodetected gateway for %s: %v'' [ArgStr ''wwan0'', ArgAddr (IPv4 192 168 8 1)]],
        Inr (IPv4 192 168 8 1))"
proof -
  have a: "''10.0.0.300'' \<noteq> []" by simp
  have b: "ParseAddr host ''10.0.0.300'' = Inl (ParseAddrError ''10.0.0.300'')"
    by (simp add: host_def parseDotted_def parseField_def digitOf_def)
  have c: "getGateway host wwan0 = ([OsOpenLease 3], Inr (IPv4 192 168 8 1))"
    by (simp add: getGateway_def getGatewaySystemdNetworkd_def host_def wwan0_def
        HasPrefix_def Cut_def parseDotted_def parseField_def digitOf_def)
  have d: "Name wwan0 = ''wwan0''" by (simp add: wwan0_def)
  from parseOrGetGateway_invalid_explicit [OF a b, of wwan0, THEN conjunct2] c d
  have "fst (parseOrGetGateway host ''10.0.0.300'' wwan0) =
          [OsOpenLease 3,
           Log ''autodetected gateway for %s: %v'' [ArgStr ''wwan0'', ArgAddr (IPv4 192 168 8 1)]]"
    and "snd (parseOrGetGateway host ''10.0.0.300'' wwan0) = Inr (IPv4 192 168 8 1)"
    by simp_all
  then have "parseOrGetGateway host ''10.0.0.300'' wwan0 =
       ([OsOpenLease 3,
         Log ''autodetected gateway for %s: %v'' [ArgStr ''wwan0'', ArgAddr (IPv4 192 168 8 1)]],
        Inr (IPv4 192 168 8 1))"
    by (cases "parseOrGetGateway host ''10.0.0.300'' wwan0") simp
  with a b c show ?thesis by blast
qed

subsection \<open>C10: the two copies of the resolver\<close>

lemma scanLease_p0_eq: "scanLease_p0 w lines = scanLease w lines"
  by (induction lines) (simp_all split: prod.splits)

lemma scanDhcpcd_p0_eq: "scanDhcpcd_p0 w lines = scanDhcpcd w lines"
  by (induction lines) (simp_all split: prod.splits)

text \<open>
  Claim C10. The four resolver functions of the second source file make the same external
  calls and return the same address or the same error as the functions of the same names in
  \<^verbatim>\<open>main.go\<close>, for every flag setting, explicit string, interface, lease file and command
  output.
\<close>

theorem resolver_copies_agree:
  "parseOrGetGateway_p0 w val iface = parseOrGetGateway w val iface
   \<and> getGateway_p0 w iface = getGateway w iface
   \<and> getGatewaySystemdNetworkd_p0 w iface = getGatewaySystemdNetworkd w iface
   \<and> getGatewayDhcpcd_p0 w iface = getGatewayDhcpcd w iface"
proof -
  have a: "getGatewaySystemdNetworkd_p0 w iface = getGatewaySystemdNetworkd w iface"
    by (simp add: getGatewaySystemdNetworkd_p0_def getGatewaySystemdNetworkd_def scanLease_p0_eq
        split: sum.splits)
  have b: "getGatewayDhcpcd_p0 w iface = getGatewayDhcpcd w iface"
    by (simp add: getGatewayDhcpcd_p0_def getGatewayDhcpcd_def scanDhcpcd_p0_eq
        split: sum.splits)
  have c: "getGateway_p0 w iface = getGateway w iface"
    by (simp add: getGateway_p0_def getGateway_def a b)
  have d: "autodetectGateway_p0 w iface = autodetectGateway w iface"
    by (simp add: autodetectGateway_p0_def autodetectGateway_def c)
  have e: "parseOrGetGateway_p0 w val iface = parseOrGetGateway w val iface"
    by (simp add: parseOrGetGateway_p0_def parseOrGetGateway_def d split: sum.splits)
  from a b c e show ?thesis by simp
qed

end
